theory Spec2Isabelle
  imports Complex_Main "HOL-Library.Multiset"
begin

section \<open>Python strings and values\<close>

text \<open>
  Python strings are modelled as \<open>string\<close> (a list of 8-bit characters), so the model
  covers ASCII text: \<open>lower\<close> folds the letters A to Z only and the whitespace of
  \<^verbatim>\<open>str.split()\<close> is the ASCII whitespace of \<^verbatim>\<open>str.isspace\<close> (tab to carriage return, the
  four separators 0x1C to 0x1F, and the space).
\<close>

definition lower_char :: "char \<Rightarrow> char" where
  "lower_char c =
     (case map_of (zip ''ABCDEFGHIJKLMNOPQRSTUVWXYZ'' ''abcdefghijklmnopqrstuvwxyz'') c of
        None \<Rightarrow> c
      | Some l \<Rightarrow> l)"

definition lower :: "string \<Rightarrow> string" where
  "lower s = map lower_char s"

fun startswith :: "string \<Rightarrow> string \<Rightarrow> bool" where
  "startswith s [] = True"
| "startswith [] (p # ps) = False"
| "startswith (c # cs) (p # ps) = (c = p \<and> startswith cs ps)"

text \<open>\<open>py_in needle s\<close> is the substring test \<^verbatim>\<open>needle in s\<close>.\<close>

fun py_in :: "string \<Rightarrow> string \<Rightarrow> bool" where
  "py_in needle [] = (needle = [])"
| "py_in needle (c # cs) = (startswith (c # cs) needle \<or> py_in needle cs)"

definition whitespace :: string where
  "whitespace =
     [CHR 0x09, CHR 0x0A, CHR 0x0B, CHR 0x0C, CHR 0x0D, CHR 0x1C, CHR 0x1D, CHR 0x1E, CHR 0x1F,
      CHR 0x20]"

definition is_space :: "char \<Rightarrow> bool" where
  "is_space c = (c \<in> set whitespace)"

text \<open>
  \<open>split_ws cur s\<close> is \<^verbatim>\<open>str.split()\<close> without arguments: runs of whitespace
  separate the tokens and no token is empty. \<open>cur\<close> holds the token being read, reversed.
\<close>

fun split_ws :: "string \<Rightarrow> string \<Rightarrow> string list" where
  "split_ws cur [] = (if cur = [] then [] else [rev cur])"
| "split_ws cur (c # cs) =
     (if is_space c then (if cur = [] then split_ws [] cs else rev cur # split_ws [] cs)
      else split_ws (c # cur) cs)"

definition split :: "string \<Rightarrow> string list" where
  "split s = split_ws [] s"

text \<open>\<open>strip chars s\<close> is \<^verbatim>\<open>s.strip(chars)\<close>.\<close>

definition strip :: "string \<Rightarrow> string \<Rightarrow> string" where
  "strip chars s =
     rev (dropWhile (\<lambda>c. c \<in> set chars) (rev (dropWhile (\<lambda>c. c \<in> set chars) s)))"

fun join :: "string \<Rightarrow> string list \<Rightarrow> string" where
  "join sep [] = []"
| "join sep [x] = x"
| "join sep (x # y # ys) = x @ sep @ join sep (y # ys)"

definition digit_char :: "nat \<Rightarrow> char" where
  "digit_char d = ''0123456789abcdef'' ! d"

fun str_nat :: "nat \<Rightarrow> string" where
  "str_nat n =
     (if n < 10 then [digit_char n] else str_nat (n div 10) @ [digit_char (n mod 10)])"

definition str_int :: "int \<Rightarrow> string" where
  "str_int i = (if i < 0 then CHR ''-'' # str_nat (nat (- i)) else str_nat (nat i))"

text \<open>
  The values of a \<^verbatim>\<open>dict[str, Any]\<close> that arrives as JSON: null, booleans, integers,
  strings, arrays and objects (floating-point numbers are left out). \<open>py_repr\<close> and
  \<open>py_str\<close> are Python's \<^verbatim>\<open>repr\<close> and \<^verbatim>\<open>str\<close> on them; an f-string formats a
  value with \<^verbatim>\<open>str\<close>.
\<close>

datatype pyval =
    PNone
  | PBool bool
  | PInt int
  | PStr string
  | PList "pyval list"
  | PDict "(string \<times> pyval) list"

definition repr_char :: "char \<Rightarrow> char \<Rightarrow> string" where
  "repr_char quote c =
     (if c = quote \<or> c = CHR 0x5C then [CHR 0x5C, c]
      else if c = CHR 0x09 then [CHR 0x5C, CHR ''t'']
      else if c = CHR 0x0A then [CHR 0x5C, CHR ''n'']
      else if c = CHR 0x0D then [CHR 0x5C, CHR ''r'']
      else if (of_char c :: nat) < 32 \<or> (of_char c :: nat) = 127
        then [CHR 0x5C, CHR ''x'',
              digit_char ((of_char c :: nat) div 16), digit_char ((of_char c :: nat) mod 16)]
      else [c])"

definition repr_str :: "string \<Rightarrow> string" where
  "repr_str s =
     (let quote = (if CHR 0x27 \<in> set s \<and> CHR 0x22 \<notin> set s then CHR 0x22 else CHR 0x27)
      in [quote] @ concat (map (repr_char quote) s) @ [quote])"

fun py_repr :: "pyval \<Rightarrow> string" where
  "py_repr PNone = ''None''"
| "py_repr (PBool b) = (if b then ''True'' else ''False'')"
| "py_repr (PInt i) = str_int i"
| "py_repr (PStr s) = repr_str s"
| "py_repr (PList xs) = ''['' @ join '', '' (map py_repr xs) @ '']''"
| "py_repr (PDict kvs) =
     ''{'' @ join '', '' (map (\<lambda>(k, v). repr_str k @ '': '' @ py_repr v) kvs) @ ''}''"

fun py_str :: "pyval \<Rightarrow> string" where
  "py_str (PStr s) = s"
| "py_str v = py_repr v"

text \<open>A \<^verbatim>\<open>dict[str, Any]\<close>; \<open>get_default d k v\<close> is \<^verbatim>\<open>d.get(k, v)\<close>.\<close>

type_synonym pydict = "string \<rightharpoonup> pyval"

definition get_default :: "pydict \<Rightarrow> string \<Rightarrow> pyval \<Rightarrow> pyval" where
  "get_default d k v = (case d k of None \<Rightarrow> v | Some x \<Rightarrow> x)"

text \<open>
  Slices with one bound, \<^verbatim>\<open>xs[start:]\<close> and \<^verbatim>\<open>xs[:stop]\<close>: a negative bound counts
  from the end of the list and every bound is clamped to the list.
\<close>

definition slice_from :: "'a list \<Rightarrow> int \<Rightarrow> 'a list" where
  "slice_from xs start =
     (if start < 0 then drop (nat (int (length xs) + start)) xs else drop (nat start) xs)"

definition slice_to :: "'a list \<Rightarrow> int \<Rightarrow> 'a list" where
  "slice_to xs stop =
     (if stop < 0 then take (nat (int (length xs) + stop)) xs else take (nat stop) xs)"

text \<open>
  \<^verbatim>\<open>list.sort(key=..., reverse=True)\<close>: the list is reversed, sorted by a stable
  sort and reversed again, so that elements with equal keys keep their order.
\<close>

definition sort_reverse :: "('a \<Rightarrow> 'k::linorder) \<Rightarrow> 'a list \<Rightarrow> 'a list" where
  "sort_reverse key xs = rev (sort_key key (rev xs))"


section \<open>Data model (app/models.py)\<close>

datatype TaskStatus = pending | running | completed | failed

fun status_value :: "TaskStatus \<Rightarrow> string" where
  "status_value pending = ''pending''"
| "status_value running = ''running''"
| "status_value completed = ''completed''"
| "status_value failed = ''failed''"

type_synonym timestamp = nat

record ActionStep =
  tool :: string
  description :: string
  arguments :: pydict

record ExecuteRequest =
  req_user_id :: string
  req_instruction :: string
  req_context :: pydict

record ToolResult =
  res_tool :: string
  ok :: bool
  message :: string
  payload :: pydict

text \<open>
  \<open>outputs\<close> holds the dumps of the tool results (\<^verbatim>\<open>result.model_dump()\<close>), which
  have the four fields of \<open>ToolResult\<close>.
\<close>

record ExecuteResponse =
  resp_task_id :: string
  resp_status :: TaskStatus
  resp_plan :: "ActionStep list"
  resp_outputs :: "ToolResult list"
  summary :: string

record TaskRecord =
  task_id :: string
  user_id :: string
  instruction :: string
  status :: TaskStatus
  plan :: "ActionStep list"
  outputs :: "ToolResult list"
  created_at :: timestamp
  updated_at :: timestamp

text \<open>\<open>kind\<close> is one of the literals \<open>''conversation''\<close>, \<open>''task''\<close>, \<open>''note''\<close>.\<close>

record MemoryEntry =
  kind :: string
  mem_user_id :: string
  mem_text :: string
  metadata :: pydict
  mem_created_at :: timestamp


section \<open>Tool registry (app/tools.py)\<close>

text \<open>
  A handler is an opaque call with side effects: it reads and changes a world \<open>'w\<close>
  (database, files) that is disjoint from the agent's tasks and memory, and it either
  returns a \<open>ToolResult\<close> or raises.
\<close>

datatype error = HandlerFault string

type_synonym 'w ToolHandler = "pydict \<Rightarrow> 'w \<Rightarrow> (error + ToolResult) \<times> 'w"

record 'w ToolRegistry =
  registry_tools :: "string \<rightharpoonup> 'w ToolHandler"

definition register ::
  "'w ToolRegistry \<Rightarrow> string \<Rightarrow> 'w ToolHandler \<Rightarrow> 'w ToolRegistry" where
  "register self name handler =
     self\<lparr>registry_tools := (registry_tools self)(name \<mapsto> handler)\<rparr>"

definition run ::
  "'w ToolRegistry \<Rightarrow> string \<Rightarrow> pydict \<Rightarrow> 'w \<Rightarrow> (error + ToolResult) \<times> 'w" where
  "run self name args w =
     (case registry_tools self name of
        None \<Rightarrow>
          (Inr \<lparr>res_tool = name, ok = False, message = ''Unknown tool: '' @ name,
                payload = Map.empty\<rparr>, w)
      | Some handler \<Rightarrow> handler args w)"


section \<open>Memory store (app/memory.py)\<close>

record MemoryStore =
  entries :: "MemoryEntry list"

definition add :: "MemoryStore \<Rightarrow> MemoryEntry \<Rightarrow> MemoryStore" where
  "add self entry = self\<lparr>entries := entries self @ [entry]\<rparr>"

definition recent :: "MemoryStore \<Rightarrow> string \<Rightarrow> int \<Rightarrow> MemoryEntry list" where
  "recent self uid limit =
     (let candidates = filter (\<lambda>e. mem_user_id e = uid) (entries self)
      in slice_from candidates (- limit))"

text \<open>
  A \<^verbatim>\<open>Counter[str]\<close> is a multiset of tokens: \<open>count a t\<close> is \<^verbatim>\<open>a[t]\<close> and
  \<^verbatim>\<open>a.get(t, 0)\<close>, \<open>set_mset a\<close> are its keys.
\<close>

type_synonym counter = "string multiset"

definition punctuation :: string where
  "punctuation = ''.,!?;:'' @ [CHR 0x22, CHR 0x27] @ ''()[]{}''"

definition vectorize :: "string \<Rightarrow> counter" where
  "vectorize txt =
     (let tokens = map (\<lambda>t. lower (strip punctuation t)) (split txt)
      in mset (filter (\<lambda>t. t \<noteq> []) tokens))"

definition dot :: "counter \<Rightarrow> counter \<Rightarrow> nat" where
  "dot a b = (\<Sum>token\<in>set_mset a. count a token * count b token)"

definition sum_squares :: "counter \<Rightarrow> nat" where
  "sum_squares a = (\<Sum>token\<in>set_mset a. count a token * count a token)"

text \<open>
  The formula of \<^verbatim>\<open>_cosine\<close> in exact real arithmetic. The source computes it in
  double precision (\<^verbatim>\<open>math.sqrt\<close>, \<^verbatim>\<open>*\<close>, \<^verbatim>\<open>/\<close>), where every operation rounds.
\<close>

definition cosine_exact :: "counter \<Rightarrow> counter \<Rightarrow> real" where
  "cosine_exact a b =
     (if a = {#} \<or> b = {#} then 0
      else let norm_a = sqrt (real (sum_squares a));
               norm_b = sqrt (real (sum_squares b))
           in if norm_a = 0 \<or> norm_b = 0 then 0
              else real (dot a b) / (norm_a * norm_b))"

text \<open>
  The loop of \<^verbatim>\<open>semantic_search\<close> over the entries. \<open>cosine\<close> stands for
  \<^verbatim>\<open>_cosine\<close>, whose result is a floating-point number: the search is defined for
  every scoring function into a linear order.
\<close>

fun score_entries ::
  "(counter \<Rightarrow> counter \<Rightarrow> 's::{linorder,zero}) \<Rightarrow> string \<Rightarrow> counter \<Rightarrow>
   MemoryEntry list \<Rightarrow> ('s \<times> MemoryEntry) list \<Rightarrow> ('s \<times> MemoryEntry) list" where
  "score_entries cosine uid query_vector [] scored = scored"
| "score_entries cosine uid query_vector (entry # rest) scored =
     (if mem_user_id entry \<noteq> uid then score_entries cosine uid query_vector rest scored
      else let score = cosine query_vector (vectorize (mem_text entry))
           in if score > 0
              then score_entries cosine uid query_vector rest (scored @ [(score, entry)])
              else score_entries cosine uid query_vector rest scored)"

definition semantic_search ::
  "(counter \<Rightarrow> counter \<Rightarrow> 's::{linorder,zero}) \<Rightarrow> MemoryStore \<Rightarrow> string \<Rightarrow> string \<Rightarrow> int \<Rightarrow>
   MemoryEntry list" where
  "semantic_search cosine self uid query limit =
     (let query_vector = vectorize query;
          scored = score_entries cosine uid query_vector (entries self) [];
          scored = sort_reverse fst scored
      in map snd (slice_to scored limit))"


section \<open>Planner (app/agent.py)\<close>

definition plan_steps :: "string \<Rightarrow> pydict \<Rightarrow> ActionStep list" where
  "plan_steps instr context =
     (let txt = lower instr;
          plan = [];
          plan =
            (if py_in ''sales'' txt \<and> py_in ''summary'' txt then
               (let week = get_default context ''week'' (PStr ''2026-W11'') in
                plan @
                [\<lparr>tool = ''sql_query'',
                  description = ''Fetch weekly sales totals'',
                  arguments =
                    [''query'' \<mapsto>
                       PStr (''SELECT salesperson, SUM(amount) AS total_amount '' @
                             ''FROM sales WHERE week = '' @ [CHR 0x27] @ py_str week @
                             [CHR 0x27] @ '' GROUP BY salesperson'')]\<rparr>,
                 \<lparr>tool = ''report_generator'',
                  description = ''Generate sales summary report'',
                  arguments =
                    [''title'' \<mapsto> PStr (''Sales Summary - '' @ py_str week),
                     ''body'' \<mapsto> PStr ''Automatically generated summary from SQL results.'',
                     ''filename'' \<mapsto> PStr (''sales-summary-'' @ py_str week @ ''.txt'')]\<rparr>])
             else plan);
          plan =
            (if py_in ''email'' txt then
               (let recipients =
                      get_default context ''recipients'' (PList [PStr ''management@company.com''])
                in
                plan @
                [\<lparr>tool = ''email_sender'',
                  description = ''Email summary to stakeholders'',
                  arguments =
                    [''to'' \<mapsto> recipients,
                     ''subject'' \<mapsto> PStr ''Automated Business Summary'',
                     ''body'' \<mapsto> PStr ''Generated report is ready.'']\<rparr>])
             else plan);
          plan =
            (if py_in ''meeting'' txt \<and> (py_in ''summarize'' txt \<or> py_in ''summary'' txt) then
               plan @
               [\<lparr>tool = ''meeting_summarizer'',
                 description = ''Summarize meeting transcript'',
                 arguments = [''transcript'' \<mapsto> get_default context ''transcript'' (PStr [])]\<rparr>]
             else plan);
          plan =
            (if py_in ''crm'' txt \<or> py_in ''update customer'' txt then
               plan @
               [\<lparr>tool = ''crm_update'',
                 description = ''Write activity note into CRM'',
                 arguments =
                   [''customer_id'' \<mapsto> get_default context ''customer_id'' (PStr ''CUST-001''),
                    ''note'' \<mapsto>
                      get_default context ''crm_note'' (PStr ''Automated follow-up logged.'')]\<rparr>]
             else plan);
          plan =
            (if plan = [] then
               plan @
               [\<lparr>tool = ''report_generator'',
                 description = ''Capture unsupported request into an operations report'',
                 arguments =
                   [''title'' \<mapsto> PStr ''Unhandled Automation Request'',
                    ''body'' \<mapsto> PStr (''Instruction: '' @ instr),
                    ''filename'' \<mapsto> PStr ''unhandled-request.txt'']\<rparr>]
             else plan)
      in plan)"

definition summarize :: "ActionStep list \<Rightarrow> ToolResult list \<Rightarrow> string" where
  "summarize steps outs =
     (let successful = length (filter ok outs)
      in ''Executed '' @ str_nat (length steps) @ '' planned steps with '' @
         str_nat successful @ '' successful tool calls. '' @
         ''Outputs include database extraction, artifacts, and automation actions.'')"


section \<open>Executor (app/agent.py)\<close>

record 'w Agent =
  tools :: "'w ToolRegistry"
  memory :: MemoryStore
  tasks :: "string \<rightharpoonup> TaskRecord"

text \<open>
  What one call of \<^verbatim>\<open>execute\<close> reads from its environment: the identifier that
  \<^verbatim>\<open>uuid.uuid4()\<close> returns, and the clock, \<open>utcnow env i\<close> being the reading of the
  \<open>i\<close>-th call of \<^verbatim>\<open>datetime.utcnow()\<close>.
\<close>

record Env =
  uuid4 :: string
  utcnow :: "nat \<Rightarrow> timestamp"

text \<open>
  The loop of \<^verbatim>\<open>execute\<close> over the plan ends in one of three ways: a handler raised,
  a step reported \<^verbatim>\<open>ok = False\<close> (the early return), or the plan is exhausted.
\<close>

datatype loop_exit =
    Raised error
  | Stopped ActionStep ToolResult "ToolResult list"
  | Exhausted "ToolResult list"

fun run_steps ::
  "'w ToolRegistry \<Rightarrow> ActionStep list \<Rightarrow> ToolResult list \<Rightarrow> 'w \<Rightarrow> loop_exit \<times> 'w" where
  "run_steps registry [] outs w = (Exhausted outs, w)"
| "run_steps registry (step # rest) outs w =
     (case run registry (tool step) (arguments step) w of
        (Inl e, w') \<Rightarrow> (Raised e, w')
      | (Inr result, w') \<Rightarrow>
          (let outs = outs @ [result]
           in if \<not> ok result then (Stopped step result outs, w')
              else run_steps registry rest outs w'))"

definition execute ::
  "Env \<Rightarrow> 'w Agent \<Rightarrow> ExecuteRequest \<Rightarrow> 'w \<Rightarrow> (error + ExecuteResponse) \<times> 'w Agent \<times> 'w" where
  "execute env self request w =
     (let tid = uuid4 env;
          steps = plan_steps (req_instruction request) (req_context request);
          rec = \<lparr>task_id = tid, user_id = req_user_id request,
                 instruction = req_instruction request, status = running, plan = steps,
                 outputs = [], created_at = utcnow env 0, updated_at = utcnow env 1\<rparr>;
          self = self\<lparr>tasks := (tasks self)(tid \<mapsto> rec)\<rparr>;
          self = self\<lparr>memory :=
                   add (memory self)
                     \<lparr>kind = ''conversation'', mem_user_id = req_user_id request,
                      mem_text = req_instruction request,
                      metadata = [''task_id'' \<mapsto> PStr tid],
                      mem_created_at = utcnow env 2\<rparr>\<rparr>
      in case run_steps (tools self) steps [] w of
           (Raised e, w') \<Rightarrow> (Inl e, self, w')
         | (Stopped step result outs, w') \<Rightarrow>
             (let rec = rec\<lparr>status := failed, outputs := outs, updated_at := utcnow env 3\<rparr>;
                  self = self\<lparr>tasks := (tasks self)(tid \<mapsto> rec)\<rparr>
              in (Inr \<lparr>resp_task_id = tid, resp_status = status rec, resp_plan = steps,
                        resp_outputs = outs,
                        summary = ''Task failed during tool `'' @ tool step @ ''`: '' @
                                  message result\<rparr>,
                  self, w'))
         | (Exhausted outs, w') \<Rightarrow>
             (let rec = rec\<lparr>status := completed, outputs := outs, updated_at := utcnow env 3\<rparr>;
                  self = self\<lparr>tasks := (tasks self)(tid \<mapsto> rec)\<rparr>;
                  summ = summarize steps outs;
                  self = self\<lparr>memory :=
                           add (memory self)
                             \<lparr>kind = ''task'', mem_user_id = req_user_id request,
                              mem_text = summ,
                              metadata = [''task_id'' \<mapsto> PStr tid,
                                          ''status'' \<mapsto> PStr (status_value (status rec))],
                              mem_created_at = utcnow env 4\<rparr>\<rparr>
              in (Inr \<lparr>resp_task_id = tid, resp_status = status rec, resp_plan = steps,
                        resp_outputs = outs, summary = summ\<rparr>,
                  self, w')))"

definition get_task :: "'w Agent \<Rightarrow> string \<Rightarrow> TaskRecord option" where
  "get_task self tid = tasks self tid"


section \<open>Notions used in the statements\<close>

text \<open>
  \<open>invoke_all registry steps w\<close> invokes every step of \<open>steps\<close> in order through the
  registry, each in the world the previous one left, whatever \<open>ok\<close> the results carry;
  it ends early only when a handler raises. It yields the results and the final world, and
  says which calls an execution has made: \<open>invoke_all registry (take k steps) w\<close> are the
  first \<open>k\<close> calls and nothing else.
\<close>

fun invoke_all ::
  "'w ToolRegistry \<Rightarrow> ActionStep list \<Rightarrow> 'w \<Rightarrow> (error + ToolResult list) \<times> 'w" where
  "invoke_all registry [] w = (Inr [], w)"
| "invoke_all registry (step # rest) w =
     (case run registry (tool step) (arguments step) w of
        (Inl e, w') \<Rightarrow> (Inl e, w')
      | (Inr result, w') \<Rightarrow>
          (case invoke_all registry rest w' of
             (Inl e, w'') \<Rightarrow> (Inl e, w'')
           | (Inr results, w'') \<Rightarrow> (Inr (result # results), w'')))"

text \<open>The four keyword predicates of the planner, on the lower-cased instruction.\<close>

definition sales_rule :: "string \<Rightarrow> bool" where
  "sales_rule txt = (py_in ''sales'' txt \<and> py_in ''summary'' txt)"

definition email_rule :: "string \<Rightarrow> bool" where
  "email_rule txt = py_in ''email'' txt"

definition meeting_rule :: "string \<Rightarrow> bool" where
  "meeting_rule txt =
     (py_in ''meeting'' txt \<and> (py_in ''summarize'' txt \<or> py_in ''summary'' txt))"

definition crm_rule :: "string \<Rightarrow> bool" where
  "crm_rule txt = (py_in ''crm'' txt \<or> py_in ''update customer'' txt)"

text \<open>The step that the last branch of the planner appends.\<close>

definition fallback_step :: "string \<Rightarrow> ActionStep" where
  "fallback_step instr =
     \<lparr>tool = ''report_generator'',
      description = ''Capture unsupported request into an operations report'',
      arguments =
        [''title'' \<mapsto> PStr ''Unhandled Automation Request'',
         ''body'' \<mapsto> PStr (''Instruction: '' @ instr),
         ''filename'' \<mapsto> PStr ''unhandled-request.txt'']\<rparr>"

text \<open>The two steps that the first branch of the planner appends, for a formatted week.\<close>

definition sql_query_step :: "string \<Rightarrow> ActionStep" where
  "sql_query_step week =
     \<lparr>tool = ''sql_query'',
      description = ''Fetch weekly sales totals'',
      arguments =
        [''query'' \<mapsto>
           PStr (''SELECT salesperson, SUM(amount) AS total_amount '' @
                 ''FROM sales WHERE week = '' @ [CHR 0x27] @ week @
                 [CHR 0x27] @ '' GROUP BY salesperson'')]\<rparr>"

definition sales_report_step :: "string \<Rightarrow> ActionStep" where
  "sales_report_step week =
     \<lparr>tool = ''report_generator'',
      description = ''Generate sales summary report'',
      arguments =
        [''title'' \<mapsto> PStr (''Sales Summary - '' @ week),
         ''body'' \<mapsto> PStr ''Automatically generated summary from SQL results.'',
         ''filename'' \<mapsto> PStr (''sales-summary-'' @ week @ ''.txt'')]\<rparr>"

text \<open>The score that \<^verbatim>\<open>semantic_search\<close> gives an entry.\<close>

definition entry_score ::
  "(counter \<Rightarrow> counter \<Rightarrow> 's) \<Rightarrow> string \<Rightarrow> MemoryEntry \<Rightarrow> 's" where
  "entry_score cosine query e = cosine (vectorize query) (vectorize (mem_text e))"

text \<open>The memory entries that \<^verbatim>\<open>execute\<close> appends.\<close>

definition conversation_entry :: "Env \<Rightarrow> ExecuteRequest \<Rightarrow> MemoryEntry" where
  "conversation_entry env request =
     \<lparr>kind = ''conversation'', mem_user_id = req_user_id request,
      mem_text = req_instruction request,
      metadata = [''task_id'' \<mapsto> PStr (uuid4 env)],
      mem_created_at = utcnow env 2\<rparr>"

definition task_entry :: "Env \<Rightarrow> ExecuteRequest \<Rightarrow> string \<Rightarrow> MemoryEntry" where
  "task_entry env request summ =
     \<lparr>kind = ''task'', mem_user_id = req_user_id request,
      mem_text = summ,
      metadata = [''task_id'' \<mapsto> PStr (uuid4 env), ''status'' \<mapsto> PStr ''completed''],
      mem_created_at = utcnow env 4\<rparr>"


section \<open>Tool registry: unknown names\<close>

text \<open>
  C9. For a name that is not registered, \<open>run\<close> returns (and does not raise) the result
  with \<open>tool = name\<close>, \<open>ok = False\<close> and the message \<open>Unknown tool: name\<close>, whatever the
  arguments. No handler is invoked: the world is the one \<open>run\<close> was called in. The
  registry is an argument of \<open>run\<close> and no part of its result, the source assigning to no
  field of it.
\<close>

theorem run_unknown_tool:
  "name \<notin> dom (registry_tools self) \<Longrightarrow>
   run self name args w =
     (Inr \<lparr>res_tool = name, ok = False, message = ''Unknown tool: '' @ name,
           payload = Map.empty\<rparr>, w)"
  by (simp add: run_def domIff)

theorem run_unknown_tool_witness:
  "''fax'' \<notin> dom (registry_tools
      (register \<lparr>registry_tools = Map.empty\<rparr> ''sql_query''
         (\<lambda>args w. (Inl (HandlerFault ''no database''), Suc w))))
   \<and> run (register \<lparr>registry_tools = Map.empty\<rparr> ''sql_query''
         (\<lambda>args w. (Inl (HandlerFault ''no database''), Suc w)))
        ''fax'' [''to'' \<mapsto> PStr ''x''] (0::nat) =
      (Inr \<lparr>res_tool = ''fax'', ok = False, message = ''Unknown tool: fax'',
            payload = Map.empty\<rparr>, 0)"
  using run_unknown_tool
    [of "''fax''"
        "register \<lparr>registry_tools = Map.empty\<rparr> ''sql_query''
           (\<lambda>args w. (Inl (HandlerFault ''no database''), Suc w))"
        "[''to'' \<mapsto> PStr ''x'']" "0::nat"]
  by (simp add: register_def)


section \<open>Planner\<close>

lemma lower_simps:
  "lower [] = []"
  "lower (c # cs) = lower_char c # lower cs"
  by (simp_all add: lower_def)

lemma plan_steps_no_rule:
  "\<not> sales_rule (lower instr) \<Longrightarrow> \<not> email_rule (lower instr) \<Longrightarrow>
   \<not> meeting_rule (lower instr) \<Longrightarrow> \<not> crm_rule (lower instr) \<Longrightarrow>
   plan_steps instr context = [fallback_step instr]"
  unfolding plan_steps_def Let_def sales_rule_def [symmetric] email_rule_def [symmetric]
    meeting_rule_def [symmetric] crm_rule_def [symmetric]
  by (simp add: fallback_step_def)

lemma plan_steps_some_rule:
  assumes "sales_rule (lower instr) \<or> email_rule (lower instr) \<or>
     meeting_rule (lower instr) \<or> crm_rule (lower instr)"
  shows "plan_steps instr context \<noteq> [] \<and>
     (\<forall>s\<in>set (plan_steps instr context).
        description s \<noteq> ''Capture unsupported request into an operations report'')"
  using assms
  unfolding plan_steps_def Let_def sales_rule_def [symmetric] email_rule_def [symmetric]
    meeting_rule_def [symmetric] crm_rule_def [symmetric]
  by (cases "sales_rule (lower instr)"; cases "email_rule (lower instr)";
      cases "meeting_rule (lower instr)"; cases "crm_rule (lower instr)"; simp)

text \<open>
  C7. The fallback step is in the plan if and only if none of the four keyword
  predicates holds of the lower-cased instruction; it is then the whole plan; and the
  plan is never empty.
\<close>

theorem fallback_iff_no_rule:
  "(fallback_step instr \<in> set (plan_steps instr context) \<longleftrightarrow>
      \<not> (sales_rule (lower instr) \<or> email_rule (lower instr) \<or>
         meeting_rule (lower instr) \<or> crm_rule (lower instr)))
   \<and> (\<not> (sales_rule (lower instr) \<or> email_rule (lower instr) \<or>
          meeting_rule (lower instr) \<or> crm_rule (lower instr))
        \<longrightarrow> plan_steps instr context = [fallback_step instr])
   \<and> plan_steps instr context \<noteq> []"
proof (cases "sales_rule (lower instr) \<or> email_rule (lower instr) \<or>
         meeting_rule (lower instr) \<or> crm_rule (lower instr)")
  case True
  have d: "description (fallback_step instr) =
      ''Capture unsupported request into an operations report''"
    by (simp add: fallback_step_def)
  from plan_steps_some_rule [OF True] d
  have "plan_steps instr context \<noteq> []"
    and "fallback_step instr \<notin> set (plan_steps instr context)"
    by blast+
  with True show ?thesis by blast
next
  case False
  then have "plan_steps instr context = [fallback_step instr]"
    using plan_steps_no_rule by blast
  with False show ?thesis by simp
qed

theorem fallback_iff_no_rule_witness:
  "\<not> (sales_rule (lower ''Hello'') \<or> email_rule (lower ''Hello'') \<or>
      meeting_rule (lower ''Hello'') \<or> crm_rule (lower ''Hello''))
   \<and> plan_steps ''Hello'' Map.empty = [fallback_step ''Hello'']
   \<and> fallback_step ''Hello'' \<in> set (plan_steps ''Hello'' Map.empty)"
proof -
  have l: "lower ''Hello'' = ''hello''"
    by (simp add: lower_simps lower_char_def)
  have h: "\<not> (sales_rule (lower ''Hello'') \<or> email_rule (lower ''Hello'') \<or>
      meeting_rule (lower ''Hello'') \<or> crm_rule (lower ''Hello''))"
    unfolding l by (simp add: sales_rule_def email_rule_def meeting_rule_def crm_rule_def)
  from fallback_iff_no_rule [of "''Hello''" Map.empty] h show ?thesis by blast
qed

text \<open>
  C8. When the lower-cased instruction contains both \<open>sales\<close> and \<open>summary\<close>, the plan
  starts with a \<open>sql_query\<close> step followed by a \<open>report_generator\<close> step, and the query of
  the first and the title and file name of the second embed the same week: the value of
  \<open>context["week"]\<close> formatted as a string when the key is present, and \<open>2026-W11\<close>
  otherwise.
\<close>

theorem sales_summary_first_two_steps:
  assumes "py_in ''sales'' (lower instr)" and "py_in ''summary'' (lower instr)"
  shows "\<exists>week rest.
           week = (case context ''week'' of None \<Rightarrow> ''2026-W11'' | Some v \<Rightarrow> py_str v)
         \<and> plan_steps instr context = sql_query_step week # sales_report_step week # rest
         \<and> tool (sql_query_step week) = ''sql_query''
         \<and> tool (sales_report_step week) = ''report_generator''"
  using assms
  by (simp add: plan_steps_def sql_query_step_def sales_report_step_def get_default_def
        Let_def split: option.split)

theorem sales_summary_first_two_steps_witness:
  "py_in ''sales'' (lower ''Sales SUMMARY'') \<and> py_in ''summary'' (lower ''Sales SUMMARY'')
   \<and> (\<exists>rest. plan_steps ''Sales SUMMARY'' [''week'' \<mapsto> PStr ''2026-W10''] =
         sql_query_step ''2026-W10'' # sales_report_step ''2026-W10'' # rest)"
proof -
  have l: "lower ''Sales SUMMARY'' = ''sales summary''"
    by (simp add: lower_simps lower_char_def)
  have h: "py_in ''sales'' (lower ''Sales SUMMARY'')" "py_in ''summary'' (lower ''Sales SUMMARY'')"
    unfolding l by simp_all
  have w: "(case [''week'' \<mapsto> PStr ''2026-W10''] ''week'' of
              None \<Rightarrow> ''2026-W11'' | Some v \<Rightarrow> py_str v) = ''2026-W10''"
    by simp
  from sales_summary_first_two_steps [OF h, of "[''week'' \<mapsto> PStr ''2026-W10'']"]
  show ?thesis unfolding w using h by blast
qed

end
